theory Spec2Isabelle
  imports Main "HOL-Library.Word"
begin

section \<open>The unity model loader\<close>

text \<open>
  A shallow embedding of \<^verbatim>\<open>ggml/examples/unity/unity_model_loader.cpp\<close>: the three
  operations of the loader, \<^verbatim>\<open>load_hparams\<close>, \<^verbatim>\<open>compute_context_size\<close> and
  \<^verbatim>\<open>tensors_alloc\<close>.
\<close>

subsection \<open>The hyperparameter table\<close>

text \<open>
  The fields of \<^verbatim>\<open>unity_hparams\<close> that the loader names, in the order in which
  \<^verbatim>\<open>load_hparams\<close> reads them (lines 19 to 70 of the source).
\<close>

datatype field =
    model_dim
  | w2v2_encoder_config__model_dim
  | w2v2_encoder_config__max_seq_len
  | w2v2_encoder_config__feature_dim
  | w2v2_encoder_config__use_fbank
  | w2v2_encoder_config__first_pass_dropout_p
  | w2v2_encoder_config__layer_norm_features
  | w2v2_encoder_config__feature_extractor_bias
  | w2v2_encoder_config__feature_extractor_layer_norm_convs
  | w2v2_encoder_config__feature_grad_scale
  | w2v2_encoder_config__num_fbank_channels
  | w2v2_encoder_config__fbank_stride
  | w2v2_encoder_config__sample_fbank_every_k
  | w2v2_encoder_config__pos_encoder_depth
  | w2v2_encoder_config__pos_conv_kernel_size
  | w2v2_encoder_config__num_pos_conv_groups
  | w2v2_encoder_config__use_conformer
  | w2v2_encoder_config__num_encoder_layers
  | w2v2_encoder_config__num_encoder_attn_heads
  | w2v2_encoder_config__ffn_inner_dim
  | w2v2_encoder_config__dropout_p
  | w2v2_encoder_config__attn_dropout_p
  | w2v2_encoder_config__layer_drop_p
  | w2v2_encoder_config__norm_order
  | w2v2_encoder_config__depthwise_conv_kernel_size
  | nllb_config__model_dim
  | nllb_config__max_seq_len
  | nllb_config__vocabulary_size
  | nllb_config__pad_idx
  | nllb_config__num_encoder_layers
  | nllb_config__num_decoder_layers
  | nllb_config__num_encoder_attn_heads
  | nllb_config__num_decoder_attn_heads
  | nllb_config__ffn_inner_dim
  | nllb_config__dropout_p
  | t2u_config__model_dim
  | t2u_config__unit_max_seq_len
  | t2u_config__unit_vocabulary_size
  | t2u_config__unit_pad_idx
  | t2u_config__num_encoder_layers
  | t2u_config__num_decoder_layers
  | t2u_config__num_encoder_attn_heads
  | t2u_config__num_decoder_attn_heads
  | t2u_config__ffn_inner_dim
  | t2u_config__dropout_p
  | use_text_encoder
  | use_conformer_adaptor
  | num_adaptor_layers
  | adaptor_kernel_size
  | adaptor_stride
  | adaptor_layer_norm
  | adaptor_dropout_p

type_synonym byte = "8 word"

text \<open>
  The declaration of \<^verbatim>\<open>struct unity_hparams\<close> (in \<^verbatim>\<open>unity_model_loader.h\<close>) is not
  part of the sources at hand, so the types of the fields are not known. The table is
  therefore kept as its object representation: every field holds the bytes stored in it.
  The size of a field, \<^verbatim>\<open>sizeof(hparams.f)\<close> in the source, is a parameter \<open>sizeof\<close> of
  the functions that need it.
\<close>

type_synonym unity_hparams = "field \<Rightarrow> byte list"

definition hparams_fields :: "field list" where
  "hparams_fields =
    [ model_dim,
      w2v2_encoder_config__model_dim,
      w2v2_encoder_config__max_seq_len,
      w2v2_encoder_config__feature_dim,
      w2v2_encoder_config__use_fbank,
      w2v2_encoder_config__first_pass_dropout_p,
      w2v2_encoder_config__layer_norm_features,
      w2v2_encoder_config__feature_extractor_bias,
      w2v2_encoder_config__feature_extractor_layer_norm_convs,
      w2v2_encoder_config__feature_grad_scale,
      w2v2_encoder_config__num_fbank_channels,
      w2v2_encoder_config__fbank_stride,
      w2v2_encoder_config__sample_fbank_every_k,
      w2v2_encoder_config__pos_encoder_depth,
      w2v2_encoder_config__pos_conv_kernel_size,
      w2v2_encoder_config__num_pos_conv_groups,
      w2v2_encoder_config__use_conformer,
      w2v2_encoder_config__num_encoder_layers,
      w2v2_encoder_config__num_encoder_attn_heads,
      w2v2_encoder_config__ffn_inner_dim,
      w2v2_encoder_config__dropout_p,
      w2v2_encoder_config__attn_dropout_p,
      w2v2_encoder_config__layer_drop_p,
      w2v2_encoder_config__norm_order,
      w2v2_encoder_config__depthwise_conv_kernel_size,
      nllb_config__model_dim,
      nllb_config__max_seq_len,
      nllb_config__vocabulary_size,
      nllb_config__pad_idx,
      nllb_config__num_encoder_layers,
      nllb_config__num_decoder_layers,
      nllb_config__num_encoder_attn_heads,
      nllb_config__num_decoder_attn_heads,
      nllb_config__ffn_inner_dim,
      nllb_config__dropout_p,
      t2u_config__model_dim,
      t2u_config__unit_max_seq_len,
      t2u_config__unit_vocabulary_size,
      t2u_config__unit_pad_idx,
      t2u_config__num_encoder_layers,
      t2u_config__num_decoder_layers,
      t2u_config__num_encoder_attn_heads,
      t2u_config__num_decoder_attn_heads,
      t2u_config__ffn_inner_dim,
      t2u_config__dropout_p,
      use_text_encoder,
      use_conformer_adaptor,
      num_adaptor_layers,
      adaptor_kernel_size,
      adaptor_stride,
      adaptor_layer_norm,
      adaptor_dropout_p ]"

text \<open>
  A table is well formed for a layout when every field holds as many bytes as its type has.
\<close>

definition wf_hparams :: "(field \<Rightarrow> nat) \<Rightarrow> unity_hparams \<Rightarrow> bool" where
  "wf_hparams sizeof h = list_all (\<lambda>f. length (h f) = sizeof f) hparams_fields"

text \<open>
  The offset of a field in the serialized hyperparameter section, and the length of the
  section: fields follow each other without separators.
\<close>

definition offset_in :: "(field \<Rightarrow> nat) \<Rightarrow> field list \<Rightarrow> field \<Rightarrow> nat" where
  "offset_in sizeof fs f = sum_list (map sizeof (takeWhile (\<lambda>g. g \<noteq> f) fs))"

definition field_offset :: "(field \<Rightarrow> nat) \<Rightarrow> field \<Rightarrow> nat" where
  "field_offset sizeof f = offset_in sizeof hparams_fields f"

definition hparams_nbytes :: "(field \<Rightarrow> nat) \<Rightarrow> nat" where
  "hparams_nbytes sizeof = sum_list (map sizeof hparams_fields)"

subsection \<open>The input stream\<close>

text \<open>
  A \<^verbatim>\<open>std::ifstream\<close> in its default configuration (no exception mask; the loader never
  sets one): the bytes not yet consumed and the failure flag. \<^verbatim>\<open>fin.read(dest, n)\<close>
  does nothing on a stream that has failed. Otherwise it copies up to \<open>n\<close> bytes to the
  front of the destination and, when fewer than \<open>n\<close> bytes were left, sets the failure flag.
  It never throws.
\<close>

record ifstream =
  buf :: "byte list"
  failbit :: bool

definition overlay :: "byte list \<Rightarrow> byte list \<Rightarrow> byte list" where
  "overlay s dest = s @ drop (length s) dest"

definition ifstream_read :: "byte list \<Rightarrow> nat \<Rightarrow> ifstream \<Rightarrow> byte list \<times> ifstream" where
  "ifstream_read dest n fin =
     (if failbit fin then (dest, fin)
      else (overlay (take n (buf fin)) dest,
            \<lparr>buf = drop n (buf fin), failbit = length (buf fin) < n\<rparr>))"

definition open_stream :: "byte list \<Rightarrow> ifstream" where
  "open_stream bs = \<lparr>buf = bs, failbit = False\<rparr>"

subsection \<open>Tensors, the arena and the model instance\<close>

text \<open>
  Modelled from the spec: the declarations of \<^verbatim>\<open>fairseq2_model\<close>,
  \<^verbatim>\<open>TransformerDecoder\<close>, \<^verbatim>\<open>TransformerDecoderLayer\<close>, \<^verbatim>\<open>MultiheadAttention\<close> and
  \<^verbatim>\<open>LayerNorm\<close> (in \<^verbatim>\<open>fairseq2.h\<close>) are missing. A named tensor is a name and a shape
  (the element type is 32-bit float throughout); the arena \<open>ctx\<close> is the sequence of the
  tensors carved from it, in allocation order; the tensor table maps names to tensors; the
  architecture struct holds a decoder with a sequence of layers, each made of a
  self-attention sub-module and a normalization sub-module, which refer to their tensor
  once initialised and to nothing when default-constructed. The model instance owns its
  table and its architecture struct: the members \<^verbatim>\<open>model.hparams\<close> and \<^verbatim>\<open>model.arch\<close>,
  which \<^verbatim>\<open>load_hparams\<close> and \<^verbatim>\<open>tensors_alloc\<close> view through a cast, are taken to be
  the storage of the two.
\<close>

record ggml_tensor =
  name :: string
  ne :: "int list"

record MultiheadAttention =
  attn_tensor :: "ggml_tensor option"
  num_heads :: int

record LayerNorm =
  norm_tensor :: "ggml_tensor option"

record TransformerDecoderLayer =
  self_attn :: MultiheadAttention
  self_attn_norm :: LayerNorm

record TransformerDecoder =
  layers :: "TransformerDecoderLayer list"

record UnityArch =
  text_decoder :: TransformerDecoder

record fairseq2_model =
  hparams :: unity_hparams
  ctx :: "ggml_tensor list"
  tensors :: "string \<rightharpoonup> ggml_tensor"
  arch :: UnityArch

datatype error = TruncatedInputError | OutOfArenaMemoryError | length_error

subsection \<open>load_hparams\<close>

text \<open>
  One \<^verbatim>\<open>fin.read((char*) &hparams.f, sizeof(hparams.f))\<close>: the bytes read overwrite the
  front of the field.
\<close>

definition read_field ::
  "(field \<Rightarrow> nat) \<Rightarrow> field \<Rightarrow> unity_hparams \<times> ifstream \<Rightarrow> unity_hparams \<times> ifstream" where
  "read_field sizeof f = (\<lambda>(h, fin).
     let (d, fin') = ifstream_read (h f) (sizeof f) fin in (h(f := d), fin'))"

text \<open>
  \<^verbatim>\<open>load_hparams\<close> is the sequence of the 52 reads, on the table of the model. It has no
  check of the state of the stream and no \<^verbatim>\<open>throw\<close>: it always returns.
\<close>

definition load_hparams ::
  "(field \<Rightarrow> nat) \<Rightarrow> fairseq2_model \<Rightarrow> ifstream \<Rightarrow> error + (fairseq2_model \<times> ifstream)" where
  "load_hparams sizeof model fin =
     (let (h, fin') = fold (read_field sizeof) hparams_fields (hparams model, fin)
      in Inr (model\<lparr>hparams := h\<rparr>, fin'))"

text \<open>
  Modelled from the spec: the writer of the serialized format is not part of the sources
  at hand. It writes the fields in the fixed field order, without separators.
\<close>

definition write_hparams :: "unity_hparams \<Rightarrow> byte list" where
  "write_hparams h = concat (map h hparams_fields)"

text \<open>
  The table that a byte sequence denotes: position defines meaning.
\<close>

definition hparams_of_bytes :: "(field \<Rightarrow> nat) \<Rightarrow> byte list \<Rightarrow> unity_hparams" where
  "hparams_of_bytes sizeof bs = (\<lambda>f. take (sizeof f) (drop (field_offset sizeof f) bs))"

subsection \<open>Typed access to the table\<close>

text \<open>
  The value of an integer field: its bytes read as a little-endian two's complement
  number (the spec assumes the byte order of the writer, little endian).
\<close>

fun le_uint :: "byte list \<Rightarrow> int" where
  "le_uint [] = 0"
| "le_uint (b # bs) = uint b + 256 * le_uint bs"

definition as_int :: "byte list \<Rightarrow> int" where
  "as_int bs =
     (let v = le_uint bs; w = 8 * length bs
      in if 0 < w \<and> 2 ^ (w - 1) \<le> v then v - 2 ^ w else v)"

text \<open>The object representation of a number in \<open>n\<close> bytes, little endian.\<close>

fun le_bytes :: "nat \<Rightarrow> int \<Rightarrow> byte list" where
  "le_bytes 0 v = []"
| "le_bytes (Suc n) v = word_of_int (v mod 256) # le_bytes n (v div 256)"

subsection \<open>compute_context_size\<close>

text \<open>
  The parameter \<^verbatim>\<open>raw_hparams\<close> is a \<^verbatim>\<open>void*\<close>, here a 64-bit address. The cast
  \<^verbatim>\<open>(unity_hparams&)raw_hparams\<close> does not follow the pointer: a cast of an lvalue to a
  reference type reinterprets the object itself, here the pointer variable, as a
  \<^verbatim>\<open>unity_hparams\<close>. So \<^verbatim>\<open>hparams.model_dim\<close> is read from the leading bytes of the
  address: it is the first member (the spec fixes the order of the fields of the table to
  the order of the serialized bytes), and an integer field has at most eight bytes. The
  product is computed in the promoted type of the field, at least 32 bits wide, with
  wrap-around, and converted to \<^verbatim>\<open>std::size_t\<close>.
\<close>

definition compute_context_size :: "(field \<Rightarrow> nat) \<Rightarrow> 64 word \<Rightarrow> 64 word" where
  "compute_context_size sizeof raw_hparams =
     (let hparams_model_dim = as_int (take (sizeof model_dim) (le_bytes 8 (uint raw_hparams)));
          w = max 32 (8 * sizeof model_dim)
      in word_of_int (signed_take_bit (w - 1) (hparams_model_dim * 1024 * 100)))"

subsection \<open>tensors_alloc\<close>

text \<open>\<^verbatim>\<open>std::to_string\<close> on an \<^verbatim>\<open>int\<close>: the decimal digits, after a minus sign if negative.\<close>

definition digit_char :: "nat \<Rightarrow> char" where
  "digit_char d = ''0123456789'' ! d"

fun string_of_nat :: "nat \<Rightarrow> string" where
  "string_of_nat n =
     (if n < 10 then [digit_char n] else string_of_nat (n div 10) @ [digit_char (n mod 10)])"

declare string_of_nat.simps [simp del]

definition to_string :: "int \<Rightarrow> string" where
  "to_string i = (if i < 0 then CHR ''-'' # string_of_nat (nat (- i)) else string_of_nat (nat i))"

text \<open>
  Modelled from the spec: \<^verbatim>\<open>MultiheadAttention_init\<close> and \<^verbatim>\<open>LayerNorm_init\<close> (in
  \<^verbatim>\<open>fairseq2.cpp\<close>) are missing. Each allocates one tensor from the arena under the name
  it is given, with a shape derived from the model dimension (a square matrix for the
  attention, which also records the head count; a vector for the normalization, as in the
  commented-out \<^verbatim>\<open>ggml_new_tensor_1d(ctx, GGML_TYPE_F32, dim)\<close>), registers the
  name-tensor pair in the tensor table of the model and makes the sub-module refer to the
  tensor. The capacity of the arena is not modelled: the arena records what is requested.
\<close>

definition new_tensor :: "fairseq2_model \<Rightarrow> string \<Rightarrow> int list \<Rightarrow> ggml_tensor \<times> fairseq2_model" where
  "new_tensor model nm shape =
     (let t = \<lparr>name = nm, ne = shape\<rparr>
      in (t, model\<lparr>ctx := ctx model @ [t], tensors := (tensors model)(nm \<mapsto> t)\<rparr>))"

definition MultiheadAttention_init ::
  "MultiheadAttention \<Rightarrow> fairseq2_model \<Rightarrow> string \<Rightarrow> int \<Rightarrow> int
     \<Rightarrow> MultiheadAttention \<times> fairseq2_model" where
  "MultiheadAttention_init self model prefix dim heads =
     (let (t, model') = new_tensor model prefix [dim, dim]
      in (self\<lparr>attn_tensor := Some t, num_heads := heads\<rparr>, model'))"

definition LayerNorm_init ::
  "LayerNorm \<Rightarrow> fairseq2_model \<Rightarrow> string \<Rightarrow> int \<Rightarrow> LayerNorm \<times> fairseq2_model" where
  "LayerNorm_init self model prefix dim =
     (let (t, model') = new_tensor model prefix [dim]
      in (self\<lparr>norm_tensor := Some t\<rparr>, model'))"

text \<open>
  Modelled from the spec: the bytes a tensor takes from the arena are its shape product
  times the element size, four bytes for a 32-bit float (the fixed per-tensor overhead is
  left out, so the figure is a lower bound of the request).
\<close>

definition ggml_nbytes :: "ggml_tensor \<Rightarrow> int" where
  "ggml_nbytes t = 4 * prod_list (ne t)"

definition arena_request :: "ggml_tensor list \<Rightarrow> int" where
  "arena_request ts = sum_list (map ggml_nbytes ts)"

text \<open>A value-initialised \<^verbatim>\<open>TransformerDecoderLayer\<close>, as \<^verbatim>\<open>std::vector(n)\<close> creates it.\<close>

definition default_layer :: TransformerDecoderLayer where
  "default_layer =
     \<lparr>self_attn = \<lparr>attn_tensor = None, num_heads = 0\<rparr>, self_attn_norm = \<lparr>norm_tensor = None\<rparr>\<rparr>"

text \<open>
  The body of the loop of \<^verbatim>\<open>tensors_alloc\<close>, for the index \<open>i\<close>, on the local vector
  \<^verbatim>\<open>layers\<close> and the model. The prefix is the fixed string followed by the index; the
  suffixes are appended to it as they stand.
\<close>

definition layer_prefix :: "nat \<Rightarrow> string" where
  "layer_prefix i = ''text_decoder.layers.'' @ to_string (int i)"

definition init_layer ::
  "int \<Rightarrow> int \<Rightarrow> nat \<Rightarrow> TransformerDecoderLayer list \<times> fairseq2_model
     \<Rightarrow> TransformerDecoderLayer list \<times> fairseq2_model" where
  "init_layer dim heads i = (\<lambda>(layers, model).
     let prefix = layer_prefix i;
         (sa, model1) =
            MultiheadAttention_init (self_attn (layers ! i)) model (prefix @ ''self_attn'') dim heads;
         layers1 = layers[i := (layers ! i)\<lparr>self_attn := sa\<rparr>];
         (sn, model2) =
            LayerNorm_init (self_attn_norm (layers1 ! i)) model1 (prefix @ ''self_attn_norm'') dim;
         layers2 = layers1[i := (layers1 ! i)\<lparr>self_attn_norm := sn\<rparr>]
     in (layers2, model2))"

text \<open>
  The loop \<^verbatim>\<open>for (int i = 0; i < n_layers; ++i)\<close> runs the body for 0, 1, ..., in order.
  (The counter of the model does not overflow; the counter of the source does not either
  as long as the layer count is below \<open>2^31\<close>.)
\<close>

definition alloc_layers ::
  "int \<Rightarrow> int \<Rightarrow> nat \<Rightarrow> TransformerDecoderLayer list \<times> fairseq2_model
     \<Rightarrow> TransformerDecoderLayer list \<times> fairseq2_model" where
  "alloc_layers dim heads n = fold (init_layer dim heads) [0..<n]"

text \<open>
  \<^verbatim>\<open>tensors_alloc\<close>: \<^verbatim>\<open>hparams\<close> is a copy of the table, \<^verbatim>\<open>arch\<close> a reference to the
  architecture struct of the model. The vector constructor throws \<^verbatim>\<open>std::length_error\<close>
  for a negative count (converted to an enormous \<^verbatim>\<open>size_t\<close>). \<^verbatim>\<open>auto layers\<close> copies the
  vector just stored in the model; the loop works on the copy, which is dropped at the
  end of the block. (The locals \<^verbatim>\<open>ctx\<close>, \<^verbatim>\<open>tensors\<close> and \<^verbatim>\<open>vocab_size\<close> are not used.)
\<close>

definition tensors_alloc :: "fairseq2_model \<Rightarrow> error + fairseq2_model" where
  "tensors_alloc model =
     (let hp = hparams model;
          dim = as_int (hp nllb_config__model_dim);
          n_layers = as_int (hp nllb_config__num_decoder_layers)
      in if n_layers < 0 then Inl length_error
         else
           let model1 = model\<lparr>arch := (arch model)\<lparr>text_decoder :=
                          (text_decoder (arch model))\<lparr>layers :=
                             replicate (nat n_layers) default_layer\<rparr>\<rparr>\<rparr>;
               layers = layers (text_decoder (arch model1));
               heads = as_int (hp nllb_config__num_decoder_attn_heads);
               (layers', model2) = alloc_layers dim heads (nat n_layers) (layers, model1)
           in Inr model2)"

text \<open>
  The names and tensors of the layers \<open>0, ..., n - 1\<close>, in the order of the pass.
\<close>

definition layer_tensors :: "int \<Rightarrow> nat \<Rightarrow> ggml_tensor list" where
  "layer_tensors dim n =
     concat (map (\<lambda>i. [\<lparr>name = layer_prefix i @ ''self_attn'', ne = [dim, dim]\<rparr>,
                        \<lparr>name = layer_prefix i @ ''self_attn_norm'', ne = [dim]\<rparr>]) [0..<n])"

definition layer_tensor_names :: "nat \<Rightarrow> string list" where
  "layer_tensor_names n =
     concat (map (\<lambda>i. [layer_prefix i @ ''self_attn'', layer_prefix i @ ''self_attn_norm''])
                 [0..<n])"

text \<open>The tensors allocated in the arena between two states of a model.\<close>

definition allocated_since :: "fairseq2_model \<Rightarrow> fairseq2_model \<Rightarrow> ggml_tensor list" where
  "allocated_since model model' = drop (length (ctx model)) (ctx model')"

text \<open>A model instance for the examples: a table, an empty arena and an empty tensor table.\<close>

definition new_model :: "unity_hparams \<Rightarrow> fairseq2_model" where
  "new_model h =
     \<lparr>hparams = h, ctx = [], tensors = Map.empty,
      arch = \<lparr>text_decoder = \<lparr>layers = []\<rparr>\<rparr>\<rparr>"

text \<open>The layer count and the model dimension that \<^verbatim>\<open>tensors_alloc\<close> reads from a model.\<close>

definition n_layers_of :: "fairseq2_model \<Rightarrow> int" where
  "n_layers_of model = as_int (hparams model nllb_config__num_decoder_layers)"

definition dim_of :: "fairseq2_model \<Rightarrow> int" where
  "dim_of model = as_int (hparams model nllb_config__model_dim)"

subsection \<open>Auxiliary notions for the proofs\<close>

text \<open>A stream that has failed has nothing left to read.\<close>

definition stream_ok :: "ifstream \<Rightarrow> bool" where
  "stream_ok fin = (failbit fin \<longrightarrow> buf fin = [])"

text \<open>The effect of one allocation on the model, and the two tensors of layer \<open>i\<close>.\<close>

definition register :: "ggml_tensor \<Rightarrow> fairseq2_model \<Rightarrow> fairseq2_model" where
  "register t model = model\<lparr>ctx := ctx model @ [t], tensors := (tensors model)(name t \<mapsto> t)\<rparr>"

definition attn_t :: "int \<Rightarrow> nat \<Rightarrow> ggml_tensor" where
  "attn_t dim i = \<lparr>name = layer_prefix i @ ''self_attn'', ne = [dim, dim]\<rparr>"

definition norm_t :: "int \<Rightarrow> nat \<Rightarrow> ggml_tensor" where
  "norm_t dim i = \<lparr>name = layer_prefix i @ ''self_attn_norm'', ne = [dim]\<rparr>"

text \<open>Layer \<open>i\<close> once both of its sub-modules are initialised.\<close>

definition inited_layer :: "int \<Rightarrow> int \<Rightarrow> nat \<Rightarrow> TransformerDecoderLayer" where
  "inited_layer dim heads i =
     \<lparr>self_attn = \<lparr>attn_tensor = Some (attn_t dim i), num_heads = heads\<rparr>,
      self_attn_norm = \<lparr>norm_tensor = Some (norm_t dim i)\<rparr>\<rparr>"

subsection \<open>Example layouts and tables\<close>

text \<open>Two layouts: every field eight bytes wide, and every field four bytes wide.\<close>

definition sizeof8 :: "field \<Rightarrow> nat" where
  "sizeof8 f = 8"

definition sizeof4 :: "field \<Rightarrow> nat" where
  "sizeof4 f = 4"

text \<open>
  Tables for the layout of eight bytes per field. In \<open>example_hparams\<close> the decoder has
  2 layers, model dimension 512 and 8 attention heads; in \<open>wide_hparams\<close> it has
  2621440 layers of model dimension 1048576.
\<close>

definition zero_hparams :: unity_hparams where
  "zero_hparams = (\<lambda>_. [0, 0, 0, 0, 0, 0, 0, 0])"

definition example_hparams :: unity_hparams where
  "example_hparams = zero_hparams
     (nllb_config__num_decoder_layers := [2, 0, 0, 0, 0, 0, 0, 0],
      nllb_config__model_dim := [0, 2, 0, 0, 0, 0, 0, 0],
      nllb_config__num_decoder_attn_heads := [8, 0, 0, 0, 0, 0, 0, 0])"

definition wide_hparams :: unity_hparams where
  "wide_hparams = zero_hparams
     (nllb_config__num_decoder_layers := [0, 0, 40, 0, 0, 0, 0, 0],
      nllb_config__model_dim := [0, 0, 16, 0, 0, 0, 0, 0],
      nllb_config__num_decoder_attn_heads := [8, 0, 0, 0, 0, 0, 0, 0])"

text \<open>The table of zeros for the layout of four bytes per field.\<close>

definition zero_hparams4 :: unity_hparams where
  "zero_hparams4 = (\<lambda>_. [0, 0, 0, 0])"

section \<open>Properties of load_hparams\<close>

text \<open>
  The reads are followed through the list of fields. A read on a stream that has failed,
  or that is exhausted, leaves the field as it is; otherwise the bytes at the head of the
  stream overwrite the front of the field.
\<close>

lemma read_field_failed: "failbit fin \<Longrightarrow> read_field sz f (h, fin) = (h, fin)"
  by (simp add: read_field_def ifstream_read_def)

lemma read_field_good:
  "\<not> failbit fin \<Longrightarrow>
   read_field sz f (h, fin) =
     (h(f := overlay (take (sz f) (buf fin)) (h f)),
      \<lparr>buf = drop (sz f) (buf fin), failbit = length (buf fin) < sz f\<rparr>)"
  by (simp add: read_field_def ifstream_read_def Let_def)

lemma read_field_table:
  assumes "stream_ok fin"
  shows "fst (read_field sz f (h, fin)) =
           h(f := overlay (take (sz f) (buf fin)) (h f))"
proof (cases "failbit fin")
  case True
  with assms have "buf fin = []" by (simp add: stream_ok_def)
  with True show ?thesis by (simp add: read_field_failed overlay_def)
next
  case False
  then show ?thesis by (simp add: read_field_good)
qed

lemma read_field_stream:
  assumes "stream_ok fin"
  shows "snd (read_field sz f (h, fin)) =
           \<lparr>buf = drop (sz f) (buf fin), failbit = (failbit fin \<or> length (buf fin) < sz f)\<rparr>"
proof (cases "failbit fin")
  case True
  with assms have "buf fin = []" by (simp add: stream_ok_def)
  with True show ?thesis by (simp add: read_field_failed)
next
  case False
  then show ?thesis by (simp add: read_field_good)
qed

lemma read_field_ok:
  assumes "stream_ok fin"
  shows "stream_ok (snd (read_field sz f (h, fin)))"
  using assms by (auto simp: read_field_stream stream_ok_def)

lemma fold_read_stream:
  "stream_ok fin \<Longrightarrow>
   snd (fold (read_field sz) fs (h, fin)) =
     \<lparr>buf = drop (sum_list (map sz fs)) (buf fin),
      failbit = (failbit fin \<or> length (buf fin) < sum_list (map sz fs))\<rparr>"
proof (induction fs arbitrary: h fin)
  case Nil
  then show ?case by simp
next
  case (Cons f fs)
  obtain h1 fin1 where r: "read_field sz f (h, fin) = (h1, fin1)"
    by (cases "read_field sz f (h, fin)")
  have ok1: "stream_ok fin1" using read_field_ok [OF Cons.prems, of sz f h] r by simp
  have s1: "fin1 = \<lparr>buf = drop (sz f) (buf fin), failbit = (failbit fin \<or> length (buf fin) < sz f)\<rparr>"
    using read_field_stream [OF Cons.prems, of sz f h] r by simp
  have "snd (fold (read_field sz) (f # fs) (h, fin)) = snd (fold (read_field sz) fs (h1, fin1))"
    by (simp add: r)
  also have "\<dots> = \<lparr>buf = drop (sum_list (map sz fs)) (buf fin1),
      failbit = (failbit fin1 \<or> length (buf fin1) < sum_list (map sz fs))\<rparr>"
    by (rule Cons.IH [OF ok1])
  also have "\<dots> = \<lparr>buf = drop (sum_list (map sz (f # fs))) (buf fin),
      failbit = (failbit fin \<or> length (buf fin) < sum_list (map sz (f # fs)))\<rparr>"
    by (auto simp: s1 add.commute)
  finally show ?case .
qed

lemma offset_in_Cons:
  "offset_in sz (g # fs) f = (if g = f then 0 else sz g + offset_in sz fs f)"
  by (simp add: offset_in_def)

lemma fold_read_table:
  "stream_ok fin \<Longrightarrow> distinct fs \<Longrightarrow>
   fst (fold (read_field sz) fs (h, fin)) f =
     (if f \<in> set fs
      then overlay (take (sz f) (drop (offset_in sz fs f) (buf fin))) (h f)
      else h f)"
proof (induction fs arbitrary: h fin)
  case Nil
  then show ?case by simp
next
  case (Cons g fs)
  obtain h1 fin1 where r: "read_field sz g (h, fin) = (h1, fin1)"
    by (cases "read_field sz g (h, fin)")
  have ok1: "stream_ok fin1" using read_field_ok [OF Cons.prems(1), of sz g h] r by simp
  have s1: "buf fin1 = drop (sz g) (buf fin)"
    using read_field_stream [OF Cons.prems(1), of sz g h] r by simp
  have h1: "h1 = h(g := overlay (take (sz g) (buf fin)) (h g))"
    using read_field_table [OF Cons.prems(1), of sz g h] r by simp
  have d: "distinct fs" and ng: "g \<notin> set fs" using Cons.prems(2) by simp_all
  have "fst (fold (read_field sz) (g # fs) (h, fin)) f = fst (fold (read_field sz) fs (h1, fin1)) f"
    by (simp add: r)
  also have "\<dots> = (if f \<in> set fs
      then overlay (take (sz f) (drop (offset_in sz fs f) (buf fin1))) (h1 f)
      else h1 f)"
    by (rule Cons.IH [OF ok1 d])
  also have "\<dots> = (if f \<in> set (g # fs)
      then overlay (take (sz f) (drop (offset_in sz (g # fs) f) (buf fin))) (h f)
      else h f)"
    using ng by (auto simp: s1 h1 offset_in_Cons add.commute)
  finally show ?case .
qed

lemma distinct_hparams_fields: "distinct hparams_fields"
  by (simp add: hparams_fields_def)

lemma hparams_fields_complete: "f \<in> set hparams_fields"
  by (cases f) (simp_all add: hparams_fields_def)

lemma stream_ok_open: "stream_ok (open_stream bs)"
  by (simp add: stream_ok_def open_stream_def)

lemma load_hparams_result:
  "load_hparams sz model (open_stream bs) =
     Inr (model\<lparr>hparams := \<lambda>f. overlay (take (sz f) (drop (field_offset sz f) bs)) (hparams model f)\<rparr>,
          \<lparr>buf = drop (hparams_nbytes sz) bs, failbit = length bs < hparams_nbytes sz\<rparr>)"
proof -
  let ?r = "fold (read_field sz) hparams_fields (hparams model, open_stream bs)"
  have t: "fst ?r = (\<lambda>f. overlay (take (sz f) (drop (field_offset sz f) bs)) (hparams model f))"
  proof
    fix f
    show "fst ?r f = overlay (take (sz f) (drop (field_offset sz f) bs)) (hparams model f)"
      using fold_read_table [OF stream_ok_open distinct_hparams_fields, of sz "hparams model" bs f]
      by (simp add: hparams_fields_complete field_offset_def open_stream_def)
  qed
  have s: "snd ?r = \<lparr>buf = drop (hparams_nbytes sz) bs, failbit = length bs < hparams_nbytes sz\<rparr>"
    using fold_read_stream [OF stream_ok_open, of sz hparams_fields "hparams model" bs]
    by (simp add: hparams_nbytes_def open_stream_def)
  show ?thesis
    unfolding load_hparams_def using t s by (simp add: case_prod_beta)
qed

lemma offset_in_bound:
  "f \<in> set fs \<Longrightarrow> offset_in sz fs f + sz f \<le> sum_list (map sz fs)"
  by (induction fs) (auto simp: offset_in_Cons)

lemma field_offset_bound: "field_offset sz f + sz f \<le> hparams_nbytes sz"
  unfolding field_offset_def hparams_nbytes_def
  by (rule offset_in_bound) (rule hparams_fields_complete)

lemma wf_hparams_length: "wf_hparams sz h \<Longrightarrow> length (h f) = sz f"
  using hparams_fields_complete [of f] by (simp add: wf_hparams_def list_all_iff)

lemma overlay_full: "length d \<le> length s \<Longrightarrow> overlay s d = s"
  by (simp add: overlay_def)

lemma overlay_Nil: "overlay [] d = d"
  by (simp add: overlay_def)

lemma drop_offset_concat:
  "f \<in> set fs \<Longrightarrow> distinct fs \<Longrightarrow> \<forall>g \<in> set fs. length (h g) = sz g \<Longrightarrow>
   \<exists>tl. drop (offset_in sz fs f) (concat (map h fs) @ rest) = h f @ tl"
proof (induction fs)
  case Nil
  then show ?case by simp
next
  case (Cons g fs)
  show ?case
  proof (cases "g = f")
    case True
    then show ?thesis by (simp add: offset_in_Cons)
  next
    case False
    with Cons.prems have "f \<in> set fs" "distinct fs" "\<forall>g \<in> set fs. length (h g) = sz g"
      by auto
    from Cons.IH [OF this] obtain tl
      where "drop (offset_in sz fs f) (concat (map h fs) @ rest) = h f @ tl" ..
    moreover have "length (h g) = sz g" using Cons.prems(3) by simp
    ultimately show ?thesis using False by (simp add: offset_in_Cons)
  qed
qed

lemma length_concat_fields:
  "\<forall>g \<in> set fs. length (h g) = sz g \<Longrightarrow> length (concat (map h fs)) = sum_list (map sz fs)"
  by (induction fs) auto

lemma length_write_hparams: "wf_hparams sz h \<Longrightarrow> length (write_hparams h) = hparams_nbytes sz"
  unfolding write_hparams_def hparams_nbytes_def
  by (rule length_concat_fields) (simp add: wf_hparams_def list_all_iff)

lemma slice_write_hparams:
  assumes "wf_hparams sz h"
  shows "take (sz f) (drop (field_offset sz f) (write_hparams h @ rest)) = h f"
proof -
  have "\<forall>g \<in> set hparams_fields. length (h g) = sz g"
    using assms by (simp add: wf_hparams_def list_all_iff)
  from drop_offset_concat [OF hparams_fields_complete distinct_hparams_fields this]
  obtain tl where "drop (field_offset sz f) (write_hparams h @ rest) = h f @ tl"
    unfolding field_offset_def write_hparams_def by blast
  then show ?thesis using wf_hparams_length [OF assms, of f] by simp
qed


lemma wf_zero_hparams: "wf_hparams sizeof8 zero_hparams"
  by (simp add: wf_hparams_def hparams_fields_def zero_hparams_def sizeof8_def)

lemma wf_example_hparams: "wf_hparams sizeof8 example_hparams"
  by (simp add: wf_hparams_def hparams_fields_def example_hparams_def zero_hparams_def sizeof8_def)

lemma wf_wide_hparams: "wf_hparams sizeof8 wide_hparams"
  by (simp add: wf_hparams_def hparams_fields_def wide_hparams_def zero_hparams_def sizeof8_def)

lemma hparams_nbytes_sizeof8: "hparams_nbytes sizeof8 = 416"
  by (simp add: hparams_nbytes_def hparams_fields_def sizeof8_def)

lemma hparams_nbytes_sizeof4: "hparams_nbytes sizeof4 = 208"
  by (simp add: hparams_nbytes_def hparams_fields_def sizeof4_def)

lemma hparams_new_model: "hparams (new_model h) = h"
  by (simp add: new_model_def)

lemma field_offset_first: "field_offset sz model_dim = 0"
  by (simp add: field_offset_def offset_in_def hparams_fields_def)

lemma field_offset_second: "field_offset sz w2v2_encoder_config__model_dim = sz model_dim"
  by (simp add: field_offset_def offset_in_def hparams_fields_def)

lemma field_offset_last: "field_offset sizeof4 adaptor_dropout_p = 204"
  by (simp add: field_offset_def offset_in_def hparams_fields_def sizeof4_def)

lemma load_hparams_of_written:
  assumes "wf_hparams sizeof h" and "wf_hparams sizeof (hparams model)"
  shows "load_hparams sizeof model (open_stream (write_hparams h @ rest)) =
           Inr (model\<lparr>hparams := h\<rparr>, open_stream rest)"
proof -
  have "(\<lambda>f. overlay (take (sizeof f) (drop (field_offset sizeof f) (write_hparams h @ rest)))
               (hparams model f)) = h"
  proof
    fix f
    have "length (hparams model f) \<le> length (h f)"
      using wf_hparams_length [OF assms(1), of f] wf_hparams_length [OF assms(2), of f]
      by simp
    then show "overlay (take (sizeof f) (drop (field_offset sizeof f) (write_hparams h @ rest)))
               (hparams model f) = h f"
      unfolding slice_write_hparams [OF assms(1)] by (rule overlay_full)
  qed
  moreover have "drop (hparams_nbytes sizeof) (write_hparams h @ rest) = rest"
    by (simp add: length_write_hparams [OF assms(1), symmetric])
  moreover have "\<not> length (write_hparams h @ rest) < hparams_nbytes sizeof"
    by (simp add: length_write_hparams [OF assms(1)])
  ultimately show ?thesis
    unfolding load_hparams_result by (simp add: open_stream_def)
qed

subsection \<open>Round trip\<close>

text \<open>
  C4. Writing the fields of a table in the fixed field order and reading the bytes back
  with \<^verbatim>\<open>load_hparams\<close> gives back every field, byte for byte; the stream is left at the
  first byte after the hyperparameter section. The table written and the table of the
  model that is read into are well formed for the layout: every field has the size of its
  type.
\<close>

theorem load_hparams_roundtrip:
  assumes "wf_hparams sizeof h" and "wf_hparams sizeof (hparams model)"
  shows "load_hparams sizeof model (open_stream (write_hparams h @ rest)) =
           Inr (model\<lparr>hparams := h\<rparr>, open_stream rest)"
  using assms by (rule load_hparams_of_written)

theorem load_hparams_roundtrip_witness:
  "wf_hparams sizeof8 example_hparams \<and> wf_hparams sizeof8 (hparams (new_model zero_hparams)) \<and>
   load_hparams sizeof8 (new_model zero_hparams)
       (open_stream (write_hparams example_hparams @ [1, 2, 3])) =
     Inr ((new_model zero_hparams)\<lparr>hparams := example_hparams\<rparr>, open_stream [1, 2, 3])"
proof -
  have b: "wf_hparams sizeof8 (hparams (new_model zero_hparams))"
    by (simp add: hparams_new_model wf_zero_hparams)
  show ?thesis
    using wf_example_hparams b load_hparams_roundtrip [OF wf_example_hparams b, of "[1, 2, 3]"]
    by simp
qed

subsection \<open>No validation of values\<close>

text \<open>
  C9. On a stream that holds at least as many bytes as the hyperparameter section,
  \<^verbatim>\<open>load_hparams\<close> returns, the stream has not failed, and every field holds exactly the
  bytes at its position in the stream, whatever they are: no value is rejected.
\<close>

theorem load_hparams_no_validation:
  assumes "hparams_nbytes sizeof \<le> length bs" and "wf_hparams sizeof (hparams model)"
  shows "load_hparams sizeof model (open_stream bs) =
           Inr (model\<lparr>hparams := hparams_of_bytes sizeof bs\<rparr>,
                open_stream (drop (hparams_nbytes sizeof) bs))"
proof -
  have "(\<lambda>f. overlay (take (sizeof f) (drop (field_offset sizeof f) bs)) (hparams model f))
          = hparams_of_bytes sizeof bs"
  proof
    fix f
    have "field_offset sizeof f + sizeof f \<le> length bs"
      using field_offset_bound [of sizeof f] assms(1) by simp
    then have "length (take (sizeof f) (drop (field_offset sizeof f) bs)) = sizeof f"
      by simp
    then show "overlay (take (sizeof f) (drop (field_offset sizeof f) bs)) (hparams model f)
          = hparams_of_bytes sizeof bs f"
      using wf_hparams_length [OF assms(2), of f]
      by (simp add: hparams_of_bytes_def overlay_full)
  qed
  moreover have "\<not> length bs < hparams_nbytes sizeof"
    using assms(1) by simp
  ultimately show ?thesis
    unfolding load_hparams_result by (simp add: open_stream_def)
qed

theorem load_hparams_no_validation_witness:
  "hparams_nbytes sizeof8 \<le> length (replicate 420 (255 :: byte)) \<and>
   wf_hparams sizeof8 (hparams (new_model zero_hparams)) \<and>
   load_hparams sizeof8 (new_model zero_hparams) (open_stream (replicate 420 255)) =
     Inr ((new_model zero_hparams)\<lparr>hparams := hparams_of_bytes sizeof8 (replicate 420 255)\<rparr>,
          open_stream (drop (hparams_nbytes sizeof8) (replicate 420 255)))"
proof -
  have a: "hparams_nbytes sizeof8 \<le> length (replicate 420 (255 :: byte))"
    by (simp add: hparams_nbytes_sizeof8)
  have b: "wf_hparams sizeof8 (hparams (new_model zero_hparams))"
    by (simp add: hparams_new_model wf_zero_hparams)
  show ?thesis
    using a b load_hparams_no_validation [OF a b] by simp
qed

subsection \<open>Truncated input\<close>

text \<open>
  C5, as the spec states it, does not hold: on a stream of five bytes and a layout of four
  bytes per field, \<^verbatim>\<open>load_hparams\<close> returns without any error, the first field is
  loaded, the first byte of the second field is overwritten and the last field is
  untouched.
\<close>

theorem load_hparams_truncated_counterexample:
  "length [1, 2, 3, 4, 5 :: byte] < hparams_nbytes sizeof4 \<and>
   load_hparams sizeof4 (new_model zero_hparams4) (open_stream [1, 2, 3, 4, 5])
     \<noteq> Inl TruncatedInputError \<and>
   hparams (fst (projr (load_hparams sizeof4 (new_model zero_hparams4)
        (open_stream [1, 2, 3, 4, 5])))) model_dim = [1, 2, 3, 4] \<and>
   hparams (fst (projr (load_hparams sizeof4 (new_model zero_hparams4)
        (open_stream [1, 2, 3, 4, 5])))) w2v2_encoder_config__model_dim = [5, 0, 0, 0] \<and>
   hparams (fst (projr (load_hparams sizeof4 (new_model zero_hparams4)
        (open_stream [1, 2, 3, 4, 5])))) adaptor_dropout_p = [0, 0, 0, 0]"
  by (simp add: load_hparams_result hparams_nbytes_sizeof4 field_offset_first
      field_offset_second field_offset_last hparams_new_model overlay_def sizeof4_def
      zero_hparams4_def)

text \<open>
  C5, amended. On a stream that ends inside the hyperparameter section, \<^verbatim>\<open>load_hparams\<close>
  returns normally. The stream is left empty with its failure flag set. In the table, the
  front of every field is overwritten by the bytes of the stream that fall on the position
  of the field: the fields before the end of the stream are loaded, the field where the
  stream ends is overwritten in part, and the fields after it keep what they held.
\<close>

theorem load_hparams_truncated:
  assumes "length bs < hparams_nbytes sizeof"
  shows "load_hparams sizeof model (open_stream bs) =
           Inr (model\<lparr>hparams := \<lambda>f. overlay (take (sizeof f) (drop (field_offset sizeof f) bs))
                                          (hparams model f)\<rparr>,
                \<lparr>buf = [], failbit = True\<rparr>)"
  using assms by (simp add: load_hparams_result)

theorem load_hparams_truncated_witness:
  "length [1, 2, 3, 4, 5 :: byte] < hparams_nbytes sizeof4 \<and>
   load_hparams sizeof4 (new_model zero_hparams4) (open_stream [1, 2, 3, 4, 5]) =
     Inr ((new_model zero_hparams4)\<lparr>hparams := \<lambda>f.
             overlay (take (sizeof4 f) (drop (field_offset sizeof4 f) [1, 2, 3, 4, 5]))
               (hparams (new_model zero_hparams4) f)\<rparr>,
          \<lparr>buf = [], failbit = True\<rparr>)"
proof -
  have a: "length [1, 2, 3, 4, 5 :: byte] < hparams_nbytes sizeof4"
    by (simp add: hparams_nbytes_sizeof4)
  show ?thesis
    using a load_hparams_truncated [OF a] by simp
qed

section \<open>Properties of tensors_alloc\<close>

subsection \<open>The effect of the pass on the model\<close>

text \<open>
  The helpers append their tensor to the arena and enter it in the tensor table; the loop
  does this for the two tensors of each layer in turn. The local vector of layers is
  threaded through the loop next to the model and has no effect on it.
\<close>

lemma new_tensor_register:
  "new_tensor model nm shape = (\<lparr>name = nm, ne = shape\<rparr>, register \<lparr>name = nm, ne = shape\<rparr> model)"
  by (simp add: new_tensor_def register_def Let_def)

lemma init_layer_model:
  "snd (init_layer dim heads i (ls, model)) = register (norm_t dim i) (register (attn_t dim i) model)"
  by (simp add: init_layer_def MultiheadAttention_init_def LayerNorm_init_def
      new_tensor_register attn_t_def norm_t_def Let_def)

lemma MultiheadAttention_all_updated:
  "(m :: MultiheadAttention)\<lparr>attn_tensor := a, num_heads := h\<rparr> = \<lparr>attn_tensor = a, num_heads = h\<rparr>"
  by (cases m) simp

lemma LayerNorm_all_updated:
  "(l :: LayerNorm)\<lparr>norm_tensor := t\<rparr> = \<lparr>norm_tensor = t\<rparr>"
  by (cases l) simp

lemma TransformerDecoderLayer_all_updated:
  "(l :: TransformerDecoderLayer)\<lparr>self_attn := a, self_attn_norm := b\<rparr> =
     \<lparr>self_attn = a, self_attn_norm = b\<rparr>"
  by (cases l) simp

lemma init_layer_layers:
  "i < length ls \<Longrightarrow>
   fst (init_layer dim heads i (ls, model)) = ls[i := inited_layer dim heads i]"
  by (simp add: init_layer_def MultiheadAttention_init_def LayerNorm_init_def
      new_tensor_register attn_t_def norm_t_def inited_layer_def Let_def
      MultiheadAttention_all_updated LayerNorm_all_updated TransformerDecoderLayer_all_updated)

lemma layer_tensors_Suc:
  "layer_tensors dim (Suc n) = layer_tensors dim n @ [attn_t dim n, norm_t dim n]"
  by (simp add: layer_tensors_def attn_t_def norm_t_def)

lemma layer_tensors_0: "layer_tensors dim 0 = []"
  by (simp add: layer_tensors_def)

lemma alloc_layers_Suc:
  "alloc_layers dim heads (Suc n) s = init_layer dim heads n (alloc_layers dim heads n s)"
  by (simp add: alloc_layers_def)

lemma alloc_layers_model:
  "snd (alloc_layers dim heads n (ls, model)) = fold register (layer_tensors dim n) model"
proof (induction n)
  case 0
  then show ?case by (simp add: alloc_layers_def layer_tensors_0)
next
  case (Suc n)
  obtain ls' m' where r: "alloc_layers dim heads n (ls, model) = (ls', m')"
    by (cases "alloc_layers dim heads n (ls, model)")
  with Suc.IH have m': "m' = fold register (layer_tensors dim n) model" by simp
  show ?case
    by (simp add: alloc_layers_Suc r init_layer_model layer_tensors_Suc m')
qed

lemma alloc_layers_layers:
  "n \<le> length ls \<Longrightarrow>
   fst (alloc_layers dim heads n (ls, model)) = map (inited_layer dim heads) [0..<n] @ drop n ls"
proof (induction n)
  case 0
  then show ?case by (simp add: alloc_layers_def)
next
  case (Suc n)
  obtain ls' m' where r: "alloc_layers dim heads n (ls, model) = (ls', m')"
    by (cases "alloc_layers dim heads n (ls, model)")
  with Suc have ls': "ls' = map (inited_layer dim heads) [0..<n] @ drop n ls" by simp
  have n: "n < length ls'" using Suc.prems by (simp add: ls')
  have "fst (alloc_layers dim heads (Suc n) (ls, model)) = ls'[n := inited_layer dim heads n]"
    by (simp add: alloc_layers_Suc r init_layer_layers [OF n])
  also have "\<dots> = map (inited_layer dim heads) [0..<Suc n] @ drop (Suc n) ls"
    using Suc.prems by (simp add: ls' list_update_append Cons_nth_drop_Suc [symmetric])
  finally show ?case .
qed

lemma ctx_fold_register: "ctx (fold register ts model) = ctx model @ ts"
  by (induction ts arbitrary: model) (simp_all add: register_def)

lemma arch_fold_register: "arch (fold register ts model) = arch model"
  by (induction ts arbitrary: model) (simp_all add: register_def)

lemma hparams_fold_register: "hparams (fold register ts model) = hparams model"
  by (induction ts arbitrary: model) (simp_all add: register_def)

lemma tensors_fold_register_notin:
  "nm \<notin> name ` set ts \<Longrightarrow> tensors (fold register ts model) nm = tensors model nm"
  by (induction ts arbitrary: model) (simp_all add: register_def)

lemma dom_tensors_fold_register:
  "dom (tensors (fold register ts model)) = dom (tensors model) \<union> name ` set ts"
  by (induction ts arbitrary: model) (auto simp: register_def)

lemma tensors_alloc_negative:
  "as_int (hparams model nllb_config__num_decoder_layers) < 0 \<Longrightarrow>
   tensors_alloc model = Inl length_error"
  by (simp add: tensors_alloc_def Let_def)

lemma tensors_alloc_result:
  assumes "0 \<le> as_int (hparams model nllb_config__num_decoder_layers)"
  shows "tensors_alloc model =
     Inr (fold register
            (layer_tensors (as_int (hparams model nllb_config__model_dim))
                           (nat (as_int (hparams model nllb_config__num_decoder_layers))))
            (model\<lparr>arch := (arch model)\<lparr>text_decoder := (text_decoder (arch model))\<lparr>layers :=
               replicate (nat (as_int (hparams model nllb_config__num_decoder_layers)))
                 default_layer\<rparr>\<rparr>\<rparr>))"
  using assms
  by (simp add: tensors_alloc_def Let_def case_prod_beta alloc_layers_model)

lemma names_layer_tensors: "map name (layer_tensors dim n) = layer_tensor_names n"
  by (simp add: layer_tensors_def layer_tensor_names_def map_concat comp_def)


subsection \<open>The names of the layers\<close>

text \<open>
  \<^verbatim>\<open>std::to_string\<close> is injective on the indices, and the two suffixes end in different
  letters, so the names of a pass are pairwise distinct.
\<close>

lemma digit_cases:
  "d < 10 \<Longrightarrow> d = 0 \<or> d = 1 \<or> d = 2 \<or> d = 3 \<or> d = 4 \<or> d = 5 \<or> d = 6 \<or> d = 7 \<or> d = 8 \<or> d = (9::nat)"
  by arith

lemma of_char_digit_char: "d < 10 \<Longrightarrow> (of_char (digit_char d) :: nat) = 48 + d"
  using digit_cases [of d] by (auto simp: digit_char_def)

lemma digit_char_inj:
  assumes "a < 10" and "b < 10" and "digit_char a = digit_char b"
  shows "a = b"
proof -
  have "(of_char (digit_char a) :: nat) = of_char (digit_char b)"
    by (simp only: assms(3))
  then have "48 + a = 48 + b"
    by (simp only: of_char_digit_char [OF assms(1)] of_char_digit_char [OF assms(2)])
  then show ?thesis by (rule add_left_imp_eq)
qed

lemma string_of_nat_small: "n < 10 \<Longrightarrow> string_of_nat n = [digit_char n]"
  by (simp add: string_of_nat.simps)

lemma string_of_nat_big:
  "\<not> n < 10 \<Longrightarrow> string_of_nat n = string_of_nat (n div 10) @ [digit_char (n mod 10)]"
  by (subst string_of_nat.simps) simp

lemma string_of_nat_nonempty: "string_of_nat n \<noteq> []"
  by (cases "n < 10") (simp_all add: string_of_nat_small string_of_nat_big)

lemma string_of_nat_inj: "string_of_nat m = string_of_nat n \<Longrightarrow> m = n"
proof (induction m arbitrary: n rule: string_of_nat.induct)
  case (1 m)
  show ?case
  proof (cases "m < 10")
    case True
    then have n: "n < 10"
      using "1.prems" string_of_nat_nonempty [of "n div 10"]
      by (cases "n < 10") (simp_all add: string_of_nat_small string_of_nat_big)
    with True "1.prems" show ?thesis
      by (simp add: string_of_nat_small digit_char_inj)
  next
    case False
    then have n: "\<not> n < 10"
      using "1.prems" string_of_nat_nonempty [of "m div 10"]
      by (cases "n < 10") (simp_all add: string_of_nat_small string_of_nat_big)
    from False n "1.prems"
    have a: "string_of_nat (m div 10) = string_of_nat (n div 10)"
      and b: "digit_char (m mod 10) = digit_char (n mod 10)"
      by (simp_all add: string_of_nat_big)
    from "1.IH" [OF False a] have "m div 10 = n div 10" .
    moreover from b have "m mod 10 = n mod 10" by (simp add: digit_char_inj)
    ultimately show ?thesis by (metis div_mult_mod_eq)
  qed
qed

lemma layer_prefix_inj: "layer_prefix i = layer_prefix j \<Longrightarrow> i = j"
  by (simp add: layer_prefix_def to_string_def string_of_nat_inj)

lemma attn_name_inj: "layer_prefix i @ ''self_attn'' = layer_prefix j @ ''self_attn'' \<Longrightarrow> i = j"
  by (simp add: layer_prefix_inj)

lemma norm_name_inj:
  "layer_prefix i @ ''self_attn_norm'' = layer_prefix j @ ''self_attn_norm'' \<Longrightarrow> i = j"
  by (simp add: layer_prefix_inj)

lemma attn_name_neq_norm_name: "xs @ ''self_attn'' \<noteq> ys @ ''self_attn_norm''"
proof
  assume "xs @ ''self_attn'' = ys @ ''self_attn_norm''"
  then have "last (xs @ ''self_attn'') = last (ys @ ''self_attn_norm'')" by simp
  then show False by simp
qed

lemma layer_tensor_names_Suc:
  "layer_tensor_names (Suc n) =
     layer_tensor_names n @ [layer_prefix n @ ''self_attn'', layer_prefix n @ ''self_attn_norm'']"
  by (simp add: layer_tensor_names_def)

lemma set_layer_tensor_names:
  "set (layer_tensor_names n) =
     (\<Union>i \<in> {..<n}. {layer_prefix i @ ''self_attn'', layer_prefix i @ ''self_attn_norm''})"
  by (induction n) (auto simp: layer_tensor_names_Suc layer_tensor_names_def less_Suc_eq)

lemma distinct_layer_tensor_names: "distinct (layer_tensor_names n)"
proof (induction n)
  case 0
  then show ?case by (simp add: layer_tensor_names_def)
next
  case (Suc n)
  have "layer_prefix n @ ''self_attn'' \<notin> set (layer_tensor_names n)"
    using attn_name_neq_norm_name [of "layer_prefix n"] attn_name_inj [of n]
    by (fastforce simp: set_layer_tensor_names)
  moreover have "layer_prefix n @ ''self_attn_norm'' \<notin> set (layer_tensor_names n)"
    using attn_name_neq_norm_name [of _ "layer_prefix n"] norm_name_inj [of n]
    by (fastforce simp: set_layer_tensor_names)
  ultimately show ?case
    using Suc attn_name_neq_norm_name [of "layer_prefix n" "layer_prefix n"]
    by (simp add: layer_tensor_names_Suc)
qed

lemma layer_name_not_frontend:
  "nm \<in> set (layer_tensor_names n) \<Longrightarrow>
     nm \<noteq> ''text_decoder_frontend.embed.weight'' \<and>
     nm \<noteq> ''text_decoder.layer_norm.weight'' \<and>
     nm \<noteq> ''text_decoder.layer_norm.bias''"
  by (auto simp: set_layer_tensor_names layer_prefix_def)

lemma n_layers_example: "n_layers_of (new_model example_hparams) = 2"
  by (simp add: n_layers_of_def new_model_def example_hparams_def as_int_def)

lemma dim_example: "dim_of (new_model example_hparams) = 512"
  by (simp add: dim_of_def new_model_def example_hparams_def as_int_def)

lemma tensors_alloc_returns:
  assumes "0 \<le> n_layers_of model"
  shows "tensors_alloc model =
     Inr (fold register (layer_tensors (dim_of model) (nat (n_layers_of model)))
            (model\<lparr>arch := (arch model)\<lparr>text_decoder := (text_decoder (arch model))\<lparr>layers :=
               replicate (nat (n_layers_of model)) default_layer\<rparr>\<rparr>\<rparr>))"
  using assms tensors_alloc_result [of model] by (simp add: n_layers_of_def dim_of_def)

lemma tensors_alloc_Inr_nonneg: "tensors_alloc model = Inr model' \<Longrightarrow> 0 \<le> n_layers_of model"
  using tensors_alloc_negative [of model] by (cases "0 \<le> n_layers_of model") (auto simp: n_layers_of_def)

lemma tensors_alloc_effect:
  assumes "tensors_alloc model = Inr model'"
  shows "ctx model' = ctx model @ layer_tensors (dim_of model) (nat (n_layers_of model))"
    and "allocated_since model model' = layer_tensors (dim_of model) (nat (n_layers_of model))"
    and "hparams model' = hparams model"
    and "layers (text_decoder (arch model')) = replicate (nat (n_layers_of model)) default_layer"
    and "dom (tensors model') = dom (tensors model) \<union> set (layer_tensor_names (nat (n_layers_of model)))"
    and "nm \<notin> set (layer_tensor_names (nat (n_layers_of model))) \<Longrightarrow> tensors model' nm = tensors model nm"
proof -
  let ?ts = "layer_tensors (dim_of model) (nat (n_layers_of model))"
  let ?m1 = "model\<lparr>arch := (arch model)\<lparr>text_decoder := (text_decoder (arch model))\<lparr>layers :=
               replicate (nat (n_layers_of model)) default_layer\<rparr>\<rparr>\<rparr>"
  have m': "model' = fold register ?ts ?m1"
    using assms tensors_alloc_returns [OF tensors_alloc_Inr_nonneg [OF assms]] by simp
  show c: "ctx model' = ctx model @ ?ts"
    by (simp add: m' ctx_fold_register)
  show "allocated_since model model' = ?ts"
    by (simp add: allocated_since_def c)
  show "hparams model' = hparams model"
    by (simp add: m' hparams_fold_register)
  show "layers (text_decoder (arch model')) = replicate (nat (n_layers_of model)) default_layer"
    by (simp add: m' arch_fold_register)
  have n: "name ` set ?ts = set (layer_tensor_names (nat (n_layers_of model)))"
    using names_layer_tensors [of "dim_of model" "nat (n_layers_of model)"]
    by (metis set_map)
  show "dom (tensors model') = dom (tensors model) \<union> set (layer_tensor_names (nat (n_layers_of model)))"
    by (simp add: m' dom_tensors_fold_register n)
  show "tensors model' nm = tensors model nm"
    if "nm \<notin> set (layer_tensor_names (nat (n_layers_of model)))"
    using that by (simp add: m' tensors_fold_register_notin n)
qed


lemma layer_tensor_names_2:
  "layer_tensor_names 2 =
        [''text_decoder.layers.0self_attn'', ''text_decoder.layers.0self_attn_norm'',
         ''text_decoder.layers.1self_attn'', ''text_decoder.layers.1self_attn_norm'']"
  by code_simp

lemma layer_tensors_2:
  "layer_tensors dim 2 =
     [\<lparr>name = ''text_decoder.layers.0self_attn'', ne = [dim, dim]\<rparr>,
      \<lparr>name = ''text_decoder.layers.0self_attn_norm'', ne = [dim]\<rparr>,
      \<lparr>name = ''text_decoder.layers.1self_attn'', ne = [dim, dim]\<rparr>,
      \<lparr>name = ''text_decoder.layers.1self_attn_norm'', ne = [dim]\<rparr>]"
proof -
  have p0: "layer_prefix 0 = ''text_decoder.layers.0''"
    by (simp add: layer_prefix_def to_string_def string_of_nat_small digit_char_def)
  have p1: "layer_prefix (Suc 0) = ''text_decoder.layers.1''"
    by (simp add: layer_prefix_def to_string_def string_of_nat_small digit_char_def)
  have "layer_tensors dim (Suc (Suc 0)) =
     [\<lparr>name = ''text_decoder.layers.0self_attn'', ne = [dim, dim]\<rparr>,
      \<lparr>name = ''text_decoder.layers.0self_attn_norm'', ne = [dim]\<rparr>,
      \<lparr>name = ''text_decoder.layers.1self_attn'', ne = [dim, dim]\<rparr>,
      \<lparr>name = ''text_decoder.layers.1self_attn_norm'', ne = [dim]\<rparr>]"
    by (simp add: layer_tensors_Suc layer_tensors_0 attn_t_def norm_t_def p0 p1)
  then show ?thesis by (simp only: numeral_2_eq_2)
qed

lemma arena_request_layer_tensors:
  "arena_request (layer_tensors dim n) = int n * (4 * (dim * dim) + 4 * dim)"
  by (induction n)
     (simp_all add: layer_tensors_0 layer_tensors_Suc arena_request_def ggml_nbytes_def
        attn_t_def norm_t_def algebra_simps)

lemma n_layers_wide: "n_layers_of (new_model wide_hparams) = 2621440"
  by (simp add: n_layers_of_def new_model_def wide_hparams_def as_int_def)

lemma dim_wide: "dim_of (new_model wide_hparams) = 1048576"
  by (simp add: dim_of_def new_model_def wide_hparams_def as_int_def)

subsection \<open>The example of the spec\<close>

text \<open>
  C1. The spec expects, for 2 layers of model dimension 512 with 8 heads, exactly the
  names \<^verbatim>\<open>text_decoder.layers.0.self_attn\<close>, \<^verbatim>\<open>text_decoder.layers.0.self_attn_norm\<close>,
  \<^verbatim>\<open>text_decoder.layers.1.self_attn\<close> and \<^verbatim>\<open>text_decoder.layers.1.self_attn_norm\<close>.
  The source appends the suffix to the prefix without a dot between the index and the
  suffix: the pass allocates and registers \<^verbatim>\<open>text_decoder.layers.0self_attn\<close> and so on,
  and none of the four expected names is in the tensor table.
\<close>

theorem tensors_alloc_example_names:
  "tensors_alloc (new_model example_hparams) =
     Inr \<lparr>hparams = example_hparams,
          ctx = [\<lparr>name = ''text_decoder.layers.0self_attn'', ne = [512, 512]\<rparr>,
                 \<lparr>name = ''text_decoder.layers.0self_attn_norm'', ne = [512]\<rparr>,
                 \<lparr>name = ''text_decoder.layers.1self_attn'', ne = [512, 512]\<rparr>,
                 \<lparr>name = ''text_decoder.layers.1self_attn_norm'', ne = [512]\<rparr>],
          tensors =
            [''text_decoder.layers.0self_attn'' \<mapsto>
               \<lparr>name = ''text_decoder.layers.0self_attn'', ne = [512, 512]\<rparr>,
             ''text_decoder.layers.0self_attn_norm'' \<mapsto>
               \<lparr>name = ''text_decoder.layers.0self_attn_norm'', ne = [512]\<rparr>,
             ''text_decoder.layers.1self_attn'' \<mapsto>
               \<lparr>name = ''text_decoder.layers.1self_attn'', ne = [512, 512]\<rparr>,
             ''text_decoder.layers.1self_attn_norm'' \<mapsto>
               \<lparr>name = ''text_decoder.layers.1self_attn_norm'', ne = [512]\<rparr>],
          arch = \<lparr>text_decoder = \<lparr>layers = [default_layer, default_layer]\<rparr>\<rparr>\<rparr> \<and>
   tensors (projr (tensors_alloc (new_model example_hparams)))
     ''text_decoder.layers.0.self_attn'' = None \<and>
   tensors (projr (tensors_alloc (new_model example_hparams)))
     ''text_decoder.layers.0.self_attn_norm'' = None \<and>
   tensors (projr (tensors_alloc (new_model example_hparams)))
     ''text_decoder.layers.1.self_attn'' = None \<and>
   tensors (projr (tensors_alloc (new_model example_hparams)))
     ''text_decoder.layers.1.self_attn_norm'' = None"
proof -
  have a: "0 \<le> n_layers_of (new_model example_hparams)"
    by (simp add: n_layers_example)
  have r: "replicate 2 default_layer = [default_layer, default_layer]"
    by (simp add: numeral_2_eq_2)
  show ?thesis
    unfolding tensors_alloc_returns [OF a] n_layers_example dim_example
    by (simp add: layer_tensors_2 register_def new_model_def r)
qed

subsection \<open>The number of tensors\<close>



subsection \<open>No name is used twice\<close>

text \<open>
  C7. For a layer count up to 24 (and in fact for any), the names of the tensors
  registered in a pass of \<^verbatim>\<open>tensors_alloc\<close> are pairwise distinct.
\<close>

theorem tensors_alloc_names_distinct:
  assumes "tensors_alloc model = Inr model'" and "n_layers_of model \<le> 24"
  shows "distinct (map name (allocated_since model model'))"
  using tensors_alloc_effect(2) [OF assms(1)]
  by (simp add: names_layer_tensors distinct_layer_tensor_names)

theorem tensors_alloc_names_distinct_witness:
  "\<exists>model'.
     tensors_alloc (new_model (example_hparams
        (nllb_config__num_decoder_layers := [24, 0, 0, 0, 0, 0, 0, 0]))) = Inr model' \<and>
     n_layers_of (new_model (example_hparams
        (nllb_config__num_decoder_layers := [24, 0, 0, 0, 0, 0, 0, 0]))) \<le> 24 \<and>
     distinct (map name (allocated_since (new_model (example_hparams
        (nllb_config__num_decoder_layers := [24, 0, 0, 0, 0, 0, 0, 0]))) model'))"
proof -
  let ?m = "new_model (example_hparams
        (nllb_config__num_decoder_layers := [24, 0, 0, 0, 0, 0, 0, 0]))"
  have n: "n_layers_of ?m = 24"
    by (simp add: n_layers_of_def new_model_def as_int_def)
  then obtain model' where r: "tensors_alloc ?m = Inr model'"
    using tensors_alloc_returns [of ?m] by simp
  have b: "n_layers_of ?m \<le> 24" using n by simp
  show ?thesis
    using r b tensors_alloc_names_distinct [OF r b] by blast
qed

subsection \<open>Frontend and final normalization\<close>

text \<open>
  C8. A pass of \<^verbatim>\<open>tensors_alloc\<close> allocates the per-layer self-attention and
  normalization tensors and nothing else: the names \<^verbatim>\<open>text_decoder_frontend.embed.weight\<close>,
  \<^verbatim>\<open>text_decoder.layer_norm.weight\<close> and \<^verbatim>\<open>text_decoder.layer_norm.bias\<close> are not among
  the names of the pass, and their entries in the tensor table are left as they were.
\<close>

theorem tensors_alloc_no_frontend_no_final_norm:
  assumes "tensors_alloc model = Inr model'"
  shows "map name (allocated_since model model') = layer_tensor_names (nat (n_layers_of model)) \<and>
         ''text_decoder_frontend.embed.weight'' \<notin> set (layer_tensor_names (nat (n_layers_of model))) \<and>
         ''text_decoder.layer_norm.weight'' \<notin> set (layer_tensor_names (nat (n_layers_of model))) \<and>
         ''text_decoder.layer_norm.bias'' \<notin> set (layer_tensor_names (nat (n_layers_of model))) \<and>
         tensors model' ''text_decoder_frontend.embed.weight'' =
           tensors model ''text_decoder_frontend.embed.weight'' \<and>
         tensors model' ''text_decoder.layer_norm.weight'' =
           tensors model ''text_decoder.layer_norm.weight'' \<and>
         tensors model' ''text_decoder.layer_norm.bias'' =
           tensors model ''text_decoder.layer_norm.bias''"
proof -
  let ?N = "layer_tensor_names (nat (n_layers_of model))"
  have a: "''text_decoder_frontend.embed.weight'' \<notin> set ?N"
    and b: "''text_decoder.layer_norm.weight'' \<notin> set ?N"
    and c: "''text_decoder.layer_norm.bias'' \<notin> set ?N"
    using layer_name_not_frontend [of _ "nat (n_layers_of model)"] by blast+
  show ?thesis
    using a b c tensors_alloc_effect(2) [OF assms] tensors_alloc_effect(6) [OF assms]
    by (simp add: names_layer_tensors)
qed

theorem tensors_alloc_no_frontend_no_final_norm_witness:
  "\<exists>model'. tensors_alloc (new_model example_hparams) = Inr model' \<and>
     map name (allocated_since (new_model example_hparams) model') =
        [''text_decoder.layers.0self_attn'', ''text_decoder.layers.0self_attn_norm'',
         ''text_decoder.layers.1self_attn'', ''text_decoder.layers.1self_attn_norm''] \<and>
     tensors model' ''text_decoder_frontend.embed.weight'' = None \<and>
     tensors model' ''text_decoder.layer_norm.weight'' = None \<and>
     tensors model' ''text_decoder.layer_norm.bias'' = None"
proof -
  have a: "0 \<le> n_layers_of (new_model example_hparams)"
    by (simp add: n_layers_example)
  obtain model' where r: "tensors_alloc (new_model example_hparams) = Inr model'"
    using tensors_alloc_returns [OF a] by blast
  have n2: "nat (n_layers_of (new_model example_hparams)) = 2"
    by (simp add: n_layers_example)
  have t: "tensors (new_model example_hparams) = Map.empty"
    by (simp add: new_model_def)
  from tensors_alloc_no_frontend_no_final_norm [OF r]
  have c: "map name (allocated_since (new_model example_hparams) model') =
        [''text_decoder.layers.0self_attn'', ''text_decoder.layers.0self_attn_norm'',
         ''text_decoder.layers.1self_attn'', ''text_decoder.layers.1self_attn_norm''] \<and>
     tensors model' ''text_decoder_frontend.embed.weight'' = None \<and>
     tensors model' ''text_decoder.layer_norm.weight'' = None \<and>
     tensors model' ''text_decoder.layer_norm.bias'' = None"
    by (simp only: n2 layer_tensor_names_2 t)
  show ?thesis
    by (rule exI [of _ model']) (simp only: r c simp_thms)
qed

subsection \<open>The layers of the architecture struct\<close>

text \<open>
  C10. After \<^verbatim>\<open>tensors_alloc\<close> has returned, the vector of layers in the architecture
  struct of the model has as many elements as the table has decoder layers, and every
  element is still default-constructed; the initialised layers are those of the local
  vector that the loop works on.
\<close>

theorem tensors_alloc_arch_layers_default:
  assumes "tensors_alloc model = Inr model'"
  shows "layers (text_decoder (arch model')) = replicate (nat (n_layers_of model)) default_layer \<and>
         fst (alloc_layers dim heads (nat (n_layers_of model))
                (replicate (nat (n_layers_of model)) default_layer, m)) =
           map (inited_layer dim heads) [0..<nat (n_layers_of model)]"
  using tensors_alloc_effect(4) [OF assms] by (simp add: alloc_layers_layers)

theorem tensors_alloc_arch_layers_default_witness:
  "\<exists>model'. tensors_alloc (new_model example_hparams) = Inr model' \<and>
     layers (text_decoder (arch model')) = [default_layer, default_layer] \<and>
     fst (alloc_layers 512 8 2 ([default_layer, default_layer], new_model example_hparams)) =
       [inited_layer 512 8 0, inited_layer 512 8 1]"
proof -
  have a: "0 \<le> n_layers_of (new_model example_hparams)"
    by (simp add: n_layers_example)
  obtain model' where r: "tensors_alloc (new_model example_hparams) = Inr model'"
    using tensors_alloc_returns [OF a] by blast
  have n2: "nat (n_layers_of (new_model example_hparams)) = 2"
    by (simp add: n_layers_example)
  have u: "[0..<2] = [0, 1::nat]" by code_simp
  have rp: "replicate 2 default_layer = [default_layer, default_layer]"
    by (simp add: numeral_2_eq_2)
  from tensors_alloc_arch_layers_default [OF r, of 512 8 "new_model example_hparams"]
  have "layers (text_decoder (arch model')) = [default_layer, default_layer] \<and>
     fst (alloc_layers 512 8 2 ([default_layer, default_layer], new_model example_hparams)) =
       [inited_layer 512 8 0, inited_layer 512 8 1]"
    by (simp only: n2 u rp) simp
  with r show ?thesis by blast
qed

section \<open>Properties of compute_context_size\<close>

text \<open>
  For a layout of eight bytes per field, the leading field read from the address is the
  address itself: the result is the address times 102400, modulo \<open>2^64\<close>.
\<close>

lemma length_le_bytes: "length (le_bytes n v) = n"
  by (induction n arbitrary: v) simp_all

lemma le_uint_le_bytes: "0 \<le> v \<Longrightarrow> le_uint (le_bytes n v) = v mod 256 ^ n"
proof (induction n arbitrary: v)
  case 0
  then show ?case by simp
next
  case (Suc n)
  have "0 \<le> v div 256" using Suc.prems by simp
  from Suc.IH [OF this] have ih: "le_uint (le_bytes n (v div 256)) = (v div 256) mod 256 ^ n" .
  have "uint (word_of_int (v mod 256) :: byte) = v mod 256"
    by (simp add: uint_word_of_int)
  then have "le_uint (le_bytes (Suc n) v) = v mod 256 + 256 * ((v div 256) mod 256 ^ n)"
    by (simp add: ih)
  also have "\<dots> = v mod (256 * 256 ^ n)"
    by (simp add: zmod_zmult2_eq)
  finally show ?case by simp
qed

lemma le_bytes_8_pointer: "le_uint (le_bytes 8 (uint (p :: 64 word))) = uint p"
proof -
  have "uint p < 2 ^ 64" using uint_lt2p [of p] by simp
  then have "uint p mod 256 ^ 8 = uint p" by simp
  then show ?thesis by (simp add: le_uint_le_bytes)
qed

lemma as_int_pointer: "word_of_int (as_int (le_bytes 8 (uint (p :: 64 word)))) = p"
proof -
  have "(word_of_int (uint p - 2 ^ 64) :: 64 word) = p"
    by (simp add: word_of_int_eq_iff take_bit_eq_mod)
  then show ?thesis
    by (simp add: as_int_def Let_def length_le_bytes le_bytes_8_pointer)
qed

lemma word_of_int_signed_take_bit_63:
  "(word_of_int (signed_take_bit 63 k) :: 64 word) = word_of_int k"
  by (simp add: word_of_int_eq_iff take_bit_signed_take_bit)

lemma compute_context_size_8: "compute_context_size (\<lambda>_. 8) p = p * 1024 * 100"
proof -
  have "take 8 (le_bytes 8 (uint p)) = le_bytes 8 (uint p)"
    by (simp add: length_le_bytes)
  then have "compute_context_size (\<lambda>_. 8) p =
      word_of_int (as_int (le_bytes 8 (uint p)) * 1024 * 100)"
    by (simp add: compute_context_size_def Let_def word_of_int_signed_take_bit_63)
  also have "\<dots> = word_of_int (as_int (le_bytes 8 (uint p))) * 1024 * 100"
    by simp
  finally show ?thesis by (simp only: as_int_pointer)
qed

lemma compute_context_size_sizeof8: "compute_context_size sizeof8 p = p * 1024 * 100"
  using compute_context_size_8 [of p] by (simp add: sizeof8_def [abs_def])

text \<open>For a layout of four bytes per field, it is read from the low half of the address.\<close>

lemma compute_context_size_sizeof4_a: "compute_context_size sizeof4 0x55d0c0a012a0 = 488243200"
  by code_simp

lemma compute_context_size_sizeof4_b: "compute_context_size sizeof4 0x55d0c0a01460 = 534118400"
  by code_simp

subsection \<open>The result depends on the address of the table\<close>

text \<open>
  C3. The spec wants the estimate to be a function of the field values of the table only.
  In the source it is computed from the address passed in: the same table stored at two
  addresses gives two different byte counts, in the layout of eight bytes per field and
  in the layout of four.
\<close>

theorem compute_context_size_depends_on_address:
  "(let mem = [0x55d0c0a012a0 \<mapsto> example_hparams, 0x55d0c0a01460 \<mapsto> example_hparams]
    in mem (0x55d0c0a012a0 :: 64 word) = mem 0x55d0c0a01460) \<and>
   compute_context_size sizeof8 0x55d0c0a012a0 = 9661959503311667200 \<and>
   compute_context_size sizeof8 0x55d0c0a01460 = 9661959503357542400 \<and>
   compute_context_size sizeof8 0x55d0c0a012a0 \<noteq> compute_context_size sizeof8 0x55d0c0a01460 \<and>
   compute_context_size sizeof4 0x55d0c0a012a0 = 488243200 \<and>
   compute_context_size sizeof4 0x55d0c0a01460 = 534118400"
  by (simp add: compute_context_size_sizeof8 compute_context_size_sizeof4_a
      compute_context_size_sizeof4_b)

subsection \<open>The estimate against the request\<close>

text \<open>
  C2. The spec wants the estimate to be at least the sum of the bytes that
  \<^verbatim>\<open>tensors_alloc\<close> requests. The estimate does not look at the table at all, so it cannot
  follow the layer count or the model dimension: for the table \<open>wide_hparams\<close>, loaded
  from its serialized form and stored at the address \<open>0x55d0c0a012a0\<close>, the pass requests
  more bytes than the estimate.
\<close>

theorem compute_context_size_below_request:
  "wf_hparams sizeof8 wide_hparams \<and>
   load_hparams sizeof8 (new_model zero_hparams) (open_stream (write_hparams wide_hparams)) =
     Inr (new_model wide_hparams, open_stream []) \<and>
   (\<exists>model'. tensors_alloc (new_model wide_hparams) = Inr model' \<and>
      arena_request (allocated_since (new_model wide_hparams) model') = 11529226041184747520 \<and>
      uint (compute_context_size sizeof8 0x55d0c0a012a0) = 9661959503311667200 \<and>
      uint (compute_context_size sizeof8 0x55d0c0a012a0) <
        arena_request (allocated_since (new_model wide_hparams) model'))"
proof -
  have a: "0 \<le> n_layers_of (new_model wide_hparams)"
    by (simp add: n_layers_wide)
  obtain model' where r: "tensors_alloc (new_model wide_hparams) = Inr model'"
    using tensors_alloc_returns [OF a] by blast
  have q: "arena_request (allocated_since (new_model wide_hparams) model') = 11529226041184747520"
    by (simp add: tensors_alloc_effect(2) [OF r] arena_request_layer_tensors n_layers_wide dim_wide)
  have e: "uint (compute_context_size sizeof8 0x55d0c0a012a0) = 9661959503311667200"
    by (simp add: compute_context_size_sizeof8)
  have w: "wf_hparams sizeof8 (hparams (new_model zero_hparams))"
    by (simp add: hparams_new_model wf_zero_hparams)
  have l: "load_hparams sizeof8 (new_model zero_hparams) (open_stream (write_hparams wide_hparams)) =
     Inr (new_model wide_hparams, open_stream [])"
    using load_hparams_of_written [OF wf_wide_hparams w, of "[]"] by (simp add: new_model_def)
  have "\<exists>model'. tensors_alloc (new_model wide_hparams) = Inr model' \<and>
      arena_request (allocated_since (new_model wide_hparams) model') = 11529226041184747520 \<and>
      uint (compute_context_size sizeof8 0x55d0c0a012a0) = 9661959503311667200 \<and>
      uint (compute_context_size sizeof8 0x55d0c0a012a0) <
        arena_request (allocated_since (new_model wide_hparams) model')"
    by (rule exI [of _ model']) (simp add: r q e)
  with wf_wide_hparams l show ?thesis by (simp only: simp_thms)
qed

end
